theory Spec2Isabelle
  imports Main "HOL-Library.Sublist"
begin

section \<open>The job queue of job_queue.py\<close>

text \<open>
  A shallow embedding of \<^verbatim>\<open>JobQueue.create_job\<close> (job_queue.py, lines 96 to 139) and of the
  data it touches: the enumerations \<^verbatim>\<open>JobStatus\<close> and \<^verbatim>\<open>JobPriority\<close>, the dataclass
  \<^verbatim>\<open>JobInfo\<close>, and the three Redis commands the method issues (SETEX, LPUSH, EXPIRE).
  Every exception the method can let through is a value \<open>Inl e\<close> of its outcome, and the
  store reached at that point is returned with it.
\<close>

subsection \<open>Enumerations\<close>

datatype JobStatus = PENDING | STARTED | PROGRESS | SUCCESS | FAILURE | CANCELLED | RETRY

fun JobStatus_value :: "JobStatus \<Rightarrow> string" where
  "JobStatus_value PENDING = ''pending''"
| "JobStatus_value STARTED = ''started''"
| "JobStatus_value PROGRESS = ''progress''"
| "JobStatus_value SUCCESS = ''success''"
| "JobStatus_value FAILURE = ''failure''"
| "JobStatus_value CANCELLED = ''cancelled''"
| "JobStatus_value RETRY = ''retry''"

datatype JobPriority = LOW | NORMAL | HIGH | URGENT

fun JobPriority_value :: "JobPriority \<Rightarrow> int" where
  "JobPriority_value LOW = 1"
| "JobPriority_value NORMAL = 5"
| "JobPriority_value HIGH = 8"
| "JobPriority_value URGENT = 10"

subsection \<open>Python values\<close>

text \<open>
  The parameter payload is a \<^verbatim>\<open>Dict[str, Any]\<close>: an association list in insertion order,
  whose values are JSON-serialisable Python values. The argument itself may be \<^verbatim>\<open>None\<close>.
\<close>

datatype pyval =
    PyNone
  | PyBool bool
  | PyInt int
  | PyStr string
  | PyList "pyval list"
  | PyDict "(string \<times> pyval) list"

type_synonym pydict = "(string \<times> pyval) list"

text \<open>\<^verbatim>\<open>parameters or {}\<close>: \<^verbatim>\<open>None\<close> and the empty dict are falsy, so both give \<^verbatim>\<open>{}\<close>.\<close>

fun or_empty_dict :: "pydict option \<Rightarrow> pydict" where
  "or_empty_dict None = []"
| "or_empty_dict (Some []) = []"
| "or_empty_dict (Some (kv # kvs)) = kv # kvs"

text \<open>\<^verbatim>\<open>str(n)\<close> of an integer, as an f-string formats it.\<close>

fun str_nat :: "nat \<Rightarrow> string" where
  "str_nat n =
     (if n < 10 then [''0123456789'' ! n]
      else str_nat (n div 10) @ [''0123456789'' ! (n mod 10)])"

declare str_nat.simps [simp del]

definition str_int :: "int \<Rightarrow> string" where
  "str_int i = (if i < 0 then CHR ''-'' # str_nat (nat (- i)) else str_nat (nat i))"

subsection \<open>The job record\<close>

text \<open>
  The dataclass \<^verbatim>\<open>JobInfo\<close>, field by field. A field annotated \<^verbatim>\<open>Optional\<close>, or defaulting
  to \<^verbatim>\<open>None\<close> as \<^verbatim>\<open>parameters\<close> does, is an option.
\<close>

record JobInfo =
  job_id :: string
  job_type :: string
  status :: string
  priority :: int
  created_at :: string
  started_at :: "string option"
  completed_at :: "string option"
  progress :: int
  progress_message :: string
  parameters :: "pydict option"
  result :: "pydict option"
  error_message :: "string option"
  retry_count :: int
  max_retries :: int
  user_id :: "string option"

subsection \<open>The Redis store\<close>

text \<open>
  One keyspace. A key holds a string or a list; the only strings this module writes are
  the JSON texts \<^verbatim>\<open>json.dumps(asdict(job_info))\<close>, each represented by the record it
  encodes. A list has its head (index 0, the left end) first. \<open>ttl\<close> gives the seconds
  left to live of the keys that have an expiry. \<open>issued\<close> is the trace of the commands
  sent to the server, oldest first, the refused ones included.
\<close>

datatype rvalue = RJson JobInfo | RList "string list"

datatype command = SETEX string nat | LPUSH string string | EXPIRE string nat

record redis =
  data :: "string \<rightharpoonup> rvalue"
  ttl :: "string \<rightharpoonup> nat"
  issued :: "command list"

text \<open>
  The exceptions that can leave \<^verbatim>\<open>create_job\<close>, which catches none: the client's
  \<^verbatim>\<open>redis.exceptions.ConnectionError\<close> when the server cannot be reached for a command,
  its \<^verbatim>\<open>ResponseError\<close> (WRONGTYPE) when a list command meets a key that holds a string,
  and whatever \<^verbatim>\<open>_dispatch_celery_task\<close> raises.
\<close>

datatype error = RedisConnectionError | RedisResponseError | DispatchError

text \<open>
  What the method takes from its environment: the hexadecimal digits of \<^verbatim>\<open>uuid.uuid4()\<close>,
  the text of \<^verbatim>\<open>datetime.utcnow().isoformat()\<close>, for each command whether the server is
  out of reach when it is sent, and whether the call of \<^verbatim>\<open>self._dispatch_celery_task\<close> on
  line 137 raises. The body of \<^verbatim>\<open>_dispatch_celery_task\<close> is not in the source: its
  outcome is this parameter, and it is taken to leave the keys of the store alone.
\<close>

record env =
  uuid4_hex :: string
  utcnow_isoformat :: string
  store_down :: "command \<Rightarrow> bool"
  dispatch_raises :: bool

text \<open>
  A command returns the exception it raised, if any, and the store after it. A command
  that raises changes no key.
\<close>

definition setex :: "env \<Rightarrow> string \<Rightarrow> nat \<Rightarrow> JobInfo \<Rightarrow> redis \<Rightarrow> error option \<times> redis" where
  "setex e k secs v r =
     (let r1 = r\<lparr>issued := issued r @ [SETEX k secs]\<rparr> in
      if store_down e (SETEX k secs) then (Some RedisConnectionError, r1)
      else (None, r1\<lparr>data := (data r1)(k \<mapsto> RJson v), ttl := (ttl r1)(k \<mapsto> secs)\<rparr>))"

definition lpush :: "env \<Rightarrow> string \<Rightarrow> string \<Rightarrow> redis \<Rightarrow> error option \<times> redis" where
  "lpush e k v r =
     (let r1 = r\<lparr>issued := issued r @ [LPUSH k v]\<rparr> in
      if store_down e (LPUSH k v) then (Some RedisConnectionError, r1)
      else (case data r1 k of
              None \<Rightarrow> (None, r1\<lparr>data := (data r1)(k \<mapsto> RList [v])\<rparr>)
            | Some (RList xs) \<Rightarrow> (None, r1\<lparr>data := (data r1)(k \<mapsto> RList (v # xs))\<rparr>)
            | Some (RJson j) \<Rightarrow> (Some RedisResponseError, r1)))"

definition expire :: "env \<Rightarrow> string \<Rightarrow> nat \<Rightarrow> redis \<Rightarrow> error option \<times> redis" where
  "expire e k secs r =
     (let r1 = r\<lparr>issued := issued r @ [EXPIRE k secs]\<rparr> in
      if store_down e (EXPIRE k secs) then (Some RedisConnectionError, r1)
      else (case data r1 k of
              None \<Rightarrow> (None, r1)
            | Some x \<Rightarrow> (None, r1\<lparr>ttl := (ttl r1)(k \<mapsto> secs)\<rparr>)))"

subsection \<open>create_job\<close>

text \<open>\<^verbatim>\<open>timedelta(days=d)\<close>, in the seconds SETEX is sent.\<close>

definition timedelta_days :: "nat \<Rightarrow> nat" where
  "timedelta_days d = d * 86400"

text \<open>The three key formats: lines 119, 127 and 132.\<close>

definition job_key :: "string \<Rightarrow> string" where
  "job_key jid = ''job:'' @ jid"

definition priority_queue :: "JobPriority \<Rightarrow> string" where
  "priority_queue p = ''queue:priority:'' @ str_int (JobPriority_value p)"

definition user_jobs_key :: "string \<Rightarrow> string" where
  "user_jobs_key u = ''user_jobs:'' @ u"

text \<open>Line 106: \<^verbatim>\<open>job_id = f"job_{uuid.uuid4().hex}"\<close>.\<close>

definition new_job_id :: "env \<Rightarrow> string" where
  "new_job_id e = ''job_'' @ uuid4_hex e"

text \<open>Lines 107 to 116: the record built for the new job.\<close>

definition new_job_info ::
  "env \<Rightarrow> string \<Rightarrow> pydict option \<Rightarrow> JobPriority \<Rightarrow> string option \<Rightarrow> int \<Rightarrow> JobInfo" where
  "new_job_info e jtype params prio uid mretries =
     \<lparr> job_id = new_job_id e,
       job_type = jtype,
       status = JobStatus_value PENDING,
       priority = JobPriority_value prio,
       created_at = utcnow_isoformat e,
       started_at = None,
       completed_at = None,
       progress = 0,
       progress_message = '''',
       parameters = Some (or_empty_dict params),
       result = None,
       error_message = None,
       retry_count = 0,
       max_retries = mretries,
       user_id = uid \<rparr>"

text \<open>
  Lines 130 to 134: the owner's index. \<^verbatim>\<open>if user_id:\<close> tests the truth value of an
  \<^verbatim>\<open>Optional[str]\<close>: \<^verbatim>\<open>None\<close> and the empty string are both falsy.
\<close>

definition add_to_user_jobs :: "env \<Rightarrow> string option \<Rightarrow> string \<Rightarrow> redis \<Rightarrow> error option \<times> redis" where
  "add_to_user_jobs e uid jid r =
     (case uid of
        None \<Rightarrow> (None, r)
      | Some u \<Rightarrow>
          if u = [] then (None, r)
          else (case lpush e (user_jobs_key u) jid r of
                  (Some x, r1) \<Rightarrow> (Some x, r1)
                | (None, r1) \<Rightarrow> expire e (user_jobs_key u) (86400 * 30) r1))"

text \<open>
  Line 137: the call \<^verbatim>\<open>self._dispatch_celery_task(job_id, job_type, parameters)\<close>, seen
  from \<^verbatim>\<open>create_job\<close>: it returns, or it raises.
\<close>

definition dispatch_celery_task :: "env \<Rightarrow> string \<Rightarrow> string \<Rightarrow> pydict option \<Rightarrow> error option" where
  "dispatch_celery_task e jid jtype params = (if dispatch_raises e then Some DispatchError else None)"

text \<open>
  Modelled from the spec: the end of \<^verbatim>\<open>create_job\<close>. The source stops at line 139, the
  logging call, before the method's last statement; the method is declared \<^verbatim>\<open>-> str\<close> and
  its callers pass what it returns to \<^verbatim>\<open>get_job_status\<close>. The spec: "Returns the
  \<^verbatim>\<open>job_id\<close> immediately".
\<close>

definition create_job_return :: "string \<Rightarrow> string" where
  "create_job_return jid = jid"

text \<open>
  The method. The first exception ends it: the statements after the one that raised are
  not run, and nothing that was written is taken back.
\<close>

definition create_job ::
  "env \<Rightarrow> string \<Rightarrow> pydict option \<Rightarrow> JobPriority \<Rightarrow> string option \<Rightarrow> int \<Rightarrow> redis
     \<Rightarrow> (error + string) \<times> redis" where
  "create_job e jtype params prio uid mretries r =
     (let jid = new_job_id e;
          job_info = new_job_info e jtype params prio uid mretries
      in case setex e (job_key jid) (timedelta_days 7) job_info r of
           (Some x, r1) \<Rightarrow> (Inl x, r1)
         | (None, r1) \<Rightarrow>
             (case lpush e (priority_queue prio) jid r1 of
                (Some x, r2) \<Rightarrow> (Inl x, r2)
              | (None, r2) \<Rightarrow>
                  (case add_to_user_jobs e uid jid r2 of
                     (Some x, r3) \<Rightarrow> (Inl x, r3)
                   | (None, r3) \<Rightarrow>
                       (case dispatch_celery_task e jid jtype params of
                          Some x \<Rightarrow> (Inl x, r3)
                        | None \<Rightarrow> (Inr (create_job_return jid), r3)))))"

subsection \<open>Reading the store\<close>

text \<open>
  The list at a key, as \<^verbatim>\<open>LRANGE key 0 -1\<close> gives it (a missing key reads as the empty
  list); whether a key holds a string, on which a list command raises; and the key a
  command addresses.
\<close>

definition list_at :: "redis \<Rightarrow> string \<Rightarrow> string list" where
  "list_at r k = (case data r k of Some (RList xs) \<Rightarrow> xs | _ \<Rightarrow> [])"

definition holds_string :: "redis \<Rightarrow> string \<Rightarrow> bool" where
  "holds_string r k = (case data r k of Some (RJson j) \<Rightarrow> True | _ \<Rightarrow> False)"

fun command_key :: "command \<Rightarrow> string" where
  "command_key (SETEX k secs) = k"
| "command_key (LPUSH k v) = k"
| "command_key (EXPIRE k secs) = k"

subsection \<open>Concrete runs\<close>

text \<open>
  An environment in which the store answers every command and the dispatch returns, five
  in which one step fails, and two stores: an empty one, and one where the NORMAL lane
  and the index of user \<open>u1\<close> already hold a job.
\<close>

definition env_ok :: env where
  "env_ok = \<lparr> uuid4_hex = ''0f3a'', utcnow_isoformat = ''2024-05-01T12:00:00'',
              store_down = (\<lambda>c. False), dispatch_raises = False \<rparr>"

definition env_setex_down :: env where
  "env_setex_down = env_ok \<lparr> store_down := (\<lambda>c. c = SETEX ''job:job_0f3a'' 604800) \<rparr>"

definition env_lane_down :: env where
  "env_lane_down = env_ok \<lparr> store_down := (\<lambda>c. c = LPUSH ''queue:priority:5'' ''job_0f3a'') \<rparr>"

definition env_index_down :: env where
  "env_index_down = env_ok \<lparr> store_down := (\<lambda>c. c = LPUSH ''user_jobs:u1'' ''job_0f3a'') \<rparr>"

definition env_expire_down :: env where
  "env_expire_down = env_ok \<lparr> store_down := (\<lambda>c. c = EXPIRE ''user_jobs:u1'' 2592000) \<rparr>"

definition env_dispatch_raises :: env where
  "env_dispatch_raises = env_ok \<lparr> dispatch_raises := True \<rparr>"

definition store_empty :: redis where
  "store_empty = \<lparr> data = Map.empty, ttl = Map.empty, issued = [] \<rparr>"

definition store_busy :: redis where
  "store_busy =
     \<lparr> data = [''queue:priority:5'' \<mapsto> RList [''job_a''], ''user_jobs:u1'' \<mapsto> RList [''job_a'']],
       ttl = [''user_jobs:u1'' \<mapsto> 100],
       issued = [] \<rparr>"

section \<open>Properties\<close>

subsection \<open>Keys\<close>

lemma str_nat_digit: "n < 10 \<Longrightarrow> str_nat n = [''0123456789'' ! n]"
  by (subst str_nat.simps) simp

lemma str_nat_10: "str_nat 10 = ''10''"
  by (subst str_nat.simps) (simp add: str_nat_digit)

lemma priority_queue_values:
  "priority_queue LOW = ''queue:priority:1''"
  "priority_queue NORMAL = ''queue:priority:5''"
  "priority_queue HIGH = ''queue:priority:8''"
  "priority_queue URGENT = ''queue:priority:10''"
  by (simp_all add: priority_queue_def str_int_def str_nat_digit str_nat_10)

lemma priority_queue_inj: "priority_queue p = priority_queue q \<longleftrightarrow> p = q"
  by (cases p; cases q) (simp_all add: priority_queue_values)

lemma keys_distinct:
  "job_key j \<noteq> priority_queue p"
  "priority_queue p \<noteq> job_key j"
  "job_key j \<noteq> user_jobs_key u"
  "user_jobs_key u \<noteq> job_key j"
  "priority_queue p \<noteq> user_jobs_key u"
  "user_jobs_key u \<noteq> priority_queue p"
  by (simp_all add: job_key_def priority_queue_def user_jobs_key_def)

lemma user_jobs_prefix_keys:
  assumes "prefix ''user_jobs:'' k"
  shows "k \<noteq> job_key j" and "k \<noteq> priority_queue p"
  using assms by (auto simp add: job_key_def priority_queue_def)

subsection \<open>One command at a time\<close>

lemma setex_None:
  assumes "setex e k secs v r = (None, r1)"
  shows "r1 = r\<lparr>issued := issued r @ [SETEX k secs],
                 data := (data r)(k \<mapsto> RJson v), ttl := (ttl r)(k \<mapsto> secs)\<rparr>"
    and "\<not> store_down e (SETEX k secs)"
  using assms by (auto simp add: setex_def Let_def split: if_splits)

lemma setex_Some:
  assumes "setex e k secs v r = (Some x, r1)"
  shows "r1 = r\<lparr>issued := issued r @ [SETEX k secs]\<rparr>"
    and "store_down e (SETEX k secs)" and "x = RedisConnectionError"
  using assms by (auto simp add: setex_def Let_def split: if_splits)

lemma lpush_frame:
  assumes "lpush e k v r = (x, r')"
  shows "ttl r' = ttl r"
    and "issued r' = issued r @ [LPUSH k v]"
    and "k' \<noteq> k \<Longrightarrow> data r' k' = data r k'"
    and "x \<noteq> None \<Longrightarrow> data r' = data r"
    and "store_down e (LPUSH k v) \<Longrightarrow> x = Some RedisConnectionError"
  using assms
  by (auto simp add: lpush_def Let_def split: option.splits rvalue.splits if_splits)

lemma lpush_up:
  assumes "lpush e k v r = (x, r')" and "\<not> store_down e (LPUSH k v)" and "\<not> holds_string r k"
  shows "x = None" and "data r' k = Some (RList (v # list_at r k))"
  using assms
  by (auto simp add: lpush_def Let_def holds_string_def list_at_def
           split: option.splits rvalue.splits if_splits)

lemma lpush_done:
  assumes "lpush e k v r = (None, r')"
  shows "data r' k = Some (RList (v # list_at r k))" and "\<not> store_down e (LPUSH k v)"
  using assms
  by (auto simp add: lpush_def Let_def list_at_def split: option.splits rvalue.splits if_splits)

lemma expire_frame:
  assumes "expire e k secs r = (x, r')"
  shows "data r' = data r"
    and "issued r' = issued r @ [EXPIRE k secs]"
    and "k' \<noteq> k \<Longrightarrow> ttl r' k' = ttl r k'"
    and "store_down e (EXPIRE k secs) \<Longrightarrow> x = Some RedisConnectionError"
  using assms
  by (auto simp add: expire_def Let_def split: option.splits if_splits)

lemma expire_up:
  assumes "expire e k secs r = (x, r')" and "\<not> store_down e (EXPIRE k secs)" and "data r k \<noteq> None"
  shows "x = None" and "ttl r' k = Some secs"
  using assms
  by (auto simp add: expire_def Let_def split: option.splits if_splits)

lemma holds_string_data: "data r1 k = data r k \<Longrightarrow> holds_string r1 k = holds_string r k"
  by (simp add: holds_string_def)

lemma list_at_data: "data r1 k = data r k \<Longrightarrow> list_at r1 k = list_at r k"
  by (simp add: list_at_def)





lemma expire_None:
  assumes "expire e k secs r = (None, r')"
  shows "\<not> store_down e (EXPIRE k secs)"
  using assms
  by (auto simp add: expire_def Let_def split: option.splits if_splits)

subsection \<open>The owner's index\<close>

lemma add_to_user_jobs_falsy:
  "uid = None \<or> uid = Some [] \<Longrightarrow> add_to_user_jobs e uid jid r = (None, r)"
  by (auto simp add: add_to_user_jobs_def)

lemma add_to_user_jobs_truthy:
  assumes "add_to_user_jobs e (Some u) jid r = (x, r')" and "u \<noteq> []"
  obtains r1 where "lpush e (user_jobs_key u) jid r = (None, r1)"
      and "expire e (user_jobs_key u) (86400 * 30) r1 = (x, r')"
  | y where "lpush e (user_jobs_key u) jid r = (Some y, r')" and "x = Some y"
  using assms
  by (auto simp add: add_to_user_jobs_def split: prod.splits option.splits)

lemma add_to_user_jobs_frame:
  assumes "add_to_user_jobs e uid jid r = (x, r')"
      and "\<forall>u. uid = Some u \<longrightarrow> k \<noteq> user_jobs_key u"
  shows "data r' k = data r k" and "ttl r' k = ttl r k"
proof -
  have "data r' k = data r k \<and> ttl r' k = ttl r k"
  proof (cases "uid = None \<or> uid = Some []")
    case True
    with assms(1) show ?thesis by (auto simp add: add_to_user_jobs_def)
  next
    case False
    then obtain u where u: "uid = Some u" "u \<noteq> []" by auto
    with assms(2) have k: "k \<noteq> user_jobs_key u" by simp
    from assms(1) u have a: "add_to_user_jobs e (Some u) jid r = (x, r')" by simp
    from a u(2) show ?thesis
    proof (cases rule: add_to_user_jobs_truthy)
      case (1 r1)
      with k show ?thesis
        using lpush_frame(1,3) [OF 1(1)] expire_frame(1,3) [OF 1(2)] by simp
    next
      case (2 y)
      with k show ?thesis using lpush_frame(1,3) [OF 2(1)] by simp
    qed
  qed
  then show "data r' k = data r k" and "ttl r' k = ttl r k" by simp_all
qed

lemma add_to_user_jobs_up:
  assumes a: "add_to_user_jobs e (Some u) jid r = (x, r')" and u: "u \<noteq> []"
      and up: "\<not> store_down e (LPUSH (user_jobs_key u) jid)"
              "\<not> store_down e (EXPIRE (user_jobs_key u) (86400 * 30))"
      and ok: "\<not> holds_string r (user_jobs_key u)"
  shows "x = None"
    and "data r' (user_jobs_key u) = Some (RList (jid # list_at r (user_jobs_key u)))"
    and "ttl r' (user_jobs_key u) = Some (86400 * 30)"
proof -
  have "x = None \<and> data r' (user_jobs_key u) = Some (RList (jid # list_at r (user_jobs_key u)))
        \<and> ttl r' (user_jobs_key u) = Some (86400 * 30)"
    using a u
  proof (cases rule: add_to_user_jobs_truthy)
    case (1 r1)
    have d: "data r1 (user_jobs_key u) = Some (RList (jid # list_at r (user_jobs_key u)))"
      using lpush_done(1) [OF 1(1)] .
    then have "data r1 (user_jobs_key u) \<noteq> None" by simp
    from expire_up [OF 1(2) up(2) this] expire_frame(1) [OF 1(2)] d
    show ?thesis by simp
  next
    case (2 y)
    with lpush_up(1) [OF 2(1) up(1) ok] show ?thesis by simp
  qed
  then show "x = None"
    and "data r' (user_jobs_key u) = Some (RList (jid # list_at r (user_jobs_key u)))"
    and "ttl r' (user_jobs_key u) = Some (86400 * 30)"
    by simp_all
qed

lemma add_to_user_jobs_trace:
  assumes "add_to_user_jobs e uid jid r = (x, r')"
  shows "\<exists>cs. issued r' = issued r @ cs
           \<and> (\<forall>c\<in>set cs. (\<forall>k secs. c \<noteq> SETEX k secs)
                 \<and> (\<exists>u. uid = Some u \<and> u \<noteq> [] \<and> command_key c = user_jobs_key u)
                 \<and> (store_down e c \<longrightarrow> x = Some RedisConnectionError \<and> last (issued r') = c))"
proof (cases "uid = None \<or> uid = Some []")
  case True
  with assms have "r' = r" by (auto simp add: add_to_user_jobs_def)
  then have "issued r' = issued r @ []" by simp
  then show ?thesis by (intro exI [of _ "[]"]) simp
next
  case False
  then obtain u where u: "uid = Some u" "u \<noteq> []" by auto
  from assms u have a: "add_to_user_jobs e (Some u) jid r = (x, r')" by simp
  let ?L = "LPUSH (user_jobs_key u) jid"
  let ?E = "EXPIRE (user_jobs_key u) (86400 * 30)"
  from a u(2) show ?thesis
  proof (cases rule: add_to_user_jobs_truthy)
    case (1 r1)
    have i: "issued r' = issued r @ [?L, ?E]"
      using lpush_frame(2) [OF 1(1)] expire_frame(2) [OF 1(2)] by simp
    have l: "\<not> store_down e ?L"
      by (rule lpush_done(2) [OF 1(1)])
    have x: "store_down e ?E \<Longrightarrow> x = Some RedisConnectionError"
      by (rule expire_frame(4) [OF 1(2)])
    have "\<forall>c\<in>set [?L, ?E]. (\<forall>k secs. c \<noteq> SETEX k secs)
            \<and> (\<exists>u. uid = Some u \<and> u \<noteq> [] \<and> command_key c = user_jobs_key u)
            \<and> (store_down e c \<longrightarrow> x = Some RedisConnectionError \<and> last (issued r') = c)"
      using i l x u by simp
    with i show ?thesis by (intro exI [of _ "[?L, ?E]"]) blast
  next
    case (2 y)
    have i: "issued r' = issued r @ [?L]"
      using lpush_frame(2) [OF 2(1)] by simp
    have x: "store_down e ?L \<Longrightarrow> x = Some RedisConnectionError"
      using lpush_frame(5) [OF 2(1)] 2(2) by simp
    have "\<forall>c\<in>set [?L]. (\<forall>k secs. c \<noteq> SETEX k secs)
            \<and> (\<exists>u. uid = Some u \<and> u \<noteq> [] \<and> command_key c = user_jobs_key u)
            \<and> (store_down e c \<longrightarrow> x = Some RedisConnectionError \<and> last (issued r') = c)"
      using i x u by simp
    with i show ?thesis by (intro exI [of _ "[?L]"]) blast
  qed
qed

subsection \<open>The paths through create_job\<close>

lemma create_job_cases:
  assumes "create_job e jtype params prio uid mretries r = (out, r')"
  obtains
    (setex_raised) x where
      "setex e (job_key (new_job_id e)) (timedelta_days 7)
         (new_job_info e jtype params prio uid mretries) r = (Some x, r')"
      "out = Inl x"
  | (lane_raised) r1 x where
      "setex e (job_key (new_job_id e)) (timedelta_days 7)
         (new_job_info e jtype params prio uid mretries) r = (None, r1)"
      "lpush e (priority_queue prio) (new_job_id e) r1 = (Some x, r')"
      "out = Inl x"
  | (index_raised) r1 r2 x where
      "setex e (job_key (new_job_id e)) (timedelta_days 7)
         (new_job_info e jtype params prio uid mretries) r = (None, r1)"
      "lpush e (priority_queue prio) (new_job_id e) r1 = (None, r2)"
      "add_to_user_jobs e uid (new_job_id e) r2 = (Some x, r')"
      "out = Inl x"
  | (dispatch_raised) r1 r2 where
      "setex e (job_key (new_job_id e)) (timedelta_days 7)
         (new_job_info e jtype params prio uid mretries) r = (None, r1)"
      "lpush e (priority_queue prio) (new_job_id e) r1 = (None, r2)"
      "add_to_user_jobs e uid (new_job_id e) r2 = (None, r')"
      "dispatch_raises e" "out = Inl DispatchError"
  | (returned) r1 r2 where
      "setex e (job_key (new_job_id e)) (timedelta_days 7)
         (new_job_info e jtype params prio uid mretries) r = (None, r1)"
      "lpush e (priority_queue prio) (new_job_id e) r1 = (None, r2)"
      "add_to_user_jobs e uid (new_job_id e) r2 = (None, r')"
      "\<not> dispatch_raises e" "out = Inr (new_job_id e)"
  using assms
  by (auto simp add: create_job_def Let_def dispatch_celery_task_def create_job_return_def
           split: prod.splits option.splits if_splits)

lemma create_job_record_kept:
  assumes cj: "create_job e jtype params prio uid mretries r = (out, r')"
      and up: "\<not> store_down e (SETEX (job_key (new_job_id e)) (timedelta_days 7))"
  shows "data r' (job_key (new_job_id e)) =
           Some (RJson (new_job_info e jtype params prio uid mretries))"
    and "ttl r' (job_key (new_job_id e)) = Some (timedelta_days 7)"
proof -
  let ?k = "job_key (new_job_id e)"
  let ?J = "new_job_info e jtype params prio uid mretries"
  have "data r' ?k = Some (RJson ?J) \<and> ttl r' ?k = Some (timedelta_days 7)"
    using cj
  proof (cases rule: create_job_cases)
    case (setex_raised x)
    with up show ?thesis using setex_Some(2) by blast
  next
    case (lane_raised r1 x)
    then show ?thesis
      using setex_None(1) [OF lane_raised(1)] lpush_frame(1) [OF lane_raised(2)] lpush_frame(3) [OF lane_raised(2), where k' = ?k]
      by (simp add: keys_distinct)
  next
    case (index_raised r1 r2 x)
    then show ?thesis
      using setex_None(1) [OF index_raised(1)] lpush_frame(1) [OF index_raised(2)] lpush_frame(3) [OF index_raised(2), where k' = ?k]
        add_to_user_jobs_frame [OF index_raised(3), where k = ?k]
      by (simp add: keys_distinct)
  next
    case (dispatch_raised r1 r2)
    then show ?thesis
      using setex_None(1) [OF dispatch_raised(1)] lpush_frame(1) [OF dispatch_raised(2)] lpush_frame(3) [OF dispatch_raised(2), where k' = ?k]
        add_to_user_jobs_frame [OF dispatch_raised(3), where k = ?k]
      by (simp add: keys_distinct)
  next
    case (returned r1 r2)
    then show ?thesis
      using setex_None(1) [OF returned(1)] lpush_frame(1) [OF returned(2)] lpush_frame(3) [OF returned(2), where k' = ?k]
        add_to_user_jobs_frame [OF returned(3), where k = ?k]
      by (simp add: keys_distinct)
  qed
  then show "data r' ?k = Some (RJson ?J)" and "ttl r' ?k = Some (timedelta_days 7)"
    by simp_all
qed

lemma create_job_frame:
  assumes cj: "create_job e jtype params prio uid mretries r = (out, r')"
      and k: "k \<noteq> job_key (new_job_id e)" "k \<noteq> priority_queue prio"
             "\<forall>u. uid = Some u \<longrightarrow> k \<noteq> user_jobs_key u"
  shows "data r' k = data r k" and "ttl r' k = ttl r k"
proof -
  have "data r' k = data r k \<and> ttl r' k = ttl r k"
    using cj
  proof (cases rule: create_job_cases)
    case (setex_raised x)
    then show ?thesis using setex_Some(1) [OF setex_raised(1)] by simp
  next
    case (lane_raised r1 x)
    then show ?thesis
      using setex_None(1) [OF lane_raised(1)] lpush_frame(1) [OF lane_raised(2)] lpush_frame(3) [OF lane_raised(2), where k' = k] k
      by simp
  next
    case (index_raised r1 r2 x)
    then show ?thesis
      using setex_None(1) [OF index_raised(1)] lpush_frame(1) [OF index_raised(2)] lpush_frame(3) [OF index_raised(2), where k' = k]
        add_to_user_jobs_frame [OF index_raised(3) k(3)] k
      by simp
  next
    case (dispatch_raised r1 r2)
    then show ?thesis
      using setex_None(1) [OF dispatch_raised(1)] lpush_frame(1) [OF dispatch_raised(2)] lpush_frame(3) [OF dispatch_raised(2), where k' = k]
        add_to_user_jobs_frame [OF dispatch_raised(3) k(3)] k
      by simp
  next
    case (returned r1 r2)
    then show ?thesis
      using setex_None(1) [OF returned(1)] lpush_frame(1) [OF returned(2)] lpush_frame(3) [OF returned(2), where k' = k]
        add_to_user_jobs_frame [OF returned(3) k(3)] k
      by simp
  qed
  then show "data r' k = data r k" and "ttl r' k = ttl r k" by simp_all
qed

lemma lane_after_push:
  assumes s: "setex e (job_key j) secs v r = (None, r1)"
      and l: "lpush e (priority_queue prio) j r1 = (None, r2)"
      and a: "add_to_user_jobs e uid j r2 = (x, r')"
  shows "data r' (priority_queue prio) = Some (RList (j # list_at r (priority_queue prio)))"
proof -
  have "data r1 (priority_queue prio) = data r (priority_queue prio)"
    by (simp add: setex_None(1) [OF s] keys_distinct)
  then have "list_at r1 (priority_queue prio) = list_at r (priority_queue prio)"
    by (rule list_at_data)
  moreover have "data r2 (priority_queue prio) = Some (RList (j # list_at r1 (priority_queue prio)))"
    by (rule lpush_done(1) [OF l])
  moreover have "data r' (priority_queue prio) = data r2 (priority_queue prio)"
    by (rule add_to_user_jobs_frame(1) [OF a]) (simp add: keys_distinct)
  ultimately show ?thesis by simp
qed

lemma create_job_lane_entry:
  assumes cj: "create_job e jtype params prio uid mretries r = (out, r')"
      and up: "\<not> store_down e (SETEX (job_key (new_job_id e)) (timedelta_days 7))"
              "\<not> store_down e (LPUSH (priority_queue prio) (new_job_id e))"
      and ok: "\<not> holds_string r (priority_queue prio)"
  shows "data r' (priority_queue prio) =
           Some (RList (new_job_id e # list_at r (priority_queue prio)))"
  using cj
proof (cases rule: create_job_cases)
  case (setex_raised x)
  from setex_Some(2) [OF setex_raised(1)] up(1) show ?thesis by simp
next
  case (lane_raised r1 x)
  have "data r1 (priority_queue prio) = data r (priority_queue prio)"
    by (simp add: setex_None(1) [OF lane_raised(1)] keys_distinct)
  then have "holds_string r1 (priority_queue prio) = holds_string r (priority_queue prio)"
    by (rule holds_string_data)
  with ok have "\<not> holds_string r1 (priority_queue prio)" by simp
  from lpush_up(1) [OF lane_raised(2) up(2) this] show ?thesis by simp
next
  case (index_raised r1 r2 x)
  then show ?thesis by (intro lane_after_push)
next
  case (dispatch_raised r1 r2)
  then show ?thesis by (intro lane_after_push)
next
  case (returned r1 r2)
  then show ?thesis by (intro lane_after_push)
qed

lemma index_key_before_index:
  assumes s: "setex e (job_key j) secs v r = (None, r1)"
      and l: "lpush e (priority_queue prio) j r1 = (None, r2)"
  shows "data r2 (user_jobs_key u) = data r (user_jobs_key u)"
proof -
  have "data r2 (user_jobs_key u) = data r1 (user_jobs_key u)"
    by (rule lpush_frame(3) [OF l]) (simp add: keys_distinct)
  also have "\<dots> = data r (user_jobs_key u)"
    by (simp add: setex_None(1) [OF s] keys_distinct)
  finally show ?thesis .
qed

lemma create_job_index_entry:
  assumes cj: "create_job e jtype params prio (Some u) mretries r = (out, r')"
      and u: "u \<noteq> []"
      and up: "\<forall>c. \<not> store_down e c"
      and lane: "\<not> holds_string r (priority_queue prio)"
      and index: "\<not> holds_string r (user_jobs_key u)"
  shows "data r' (user_jobs_key u) = Some (RList (new_job_id e # list_at r (user_jobs_key u)))"
    and "ttl r' (user_jobs_key u) = Some (86400 * 30)"
proof -
  from up have upL: "\<not> store_down e (LPUSH (user_jobs_key u) (new_job_id e))"
    and upE: "\<not> store_down e (EXPIRE (user_jobs_key u) (86400 * 30))" by simp_all
  have fin: "data r' (user_jobs_key u) = Some (RList (new_job_id e # list_at r (user_jobs_key u)))
              \<and> ttl r' (user_jobs_key u) = Some (86400 * 30)"
    if s: "setex e (job_key (new_job_id e)) (timedelta_days 7)
             (new_job_info e jtype params prio (Some u) mretries) r = (None, r1)"
      and l: "lpush e (priority_queue prio) (new_job_id e) r1 = (None, r2)"
      and a: "add_to_user_jobs e (Some u) (new_job_id e) r2 = (x, r')"
    for r1 r2 x
  proof -
    have d: "data r2 (user_jobs_key u) = data r (user_jobs_key u)"
      by (rule index_key_before_index [OF s l])
    from index have n: "\<not> holds_string r2 (user_jobs_key u)"
      by (simp add: holds_string_data [OF d])
    from add_to_user_jobs_up(2,3) [OF a u upL upE n] list_at_data [OF d]
    show ?thesis by simp
  qed
  have "data r' (user_jobs_key u) = Some (RList (new_job_id e # list_at r (user_jobs_key u)))
        \<and> ttl r' (user_jobs_key u) = Some (86400 * 30)"
    using cj
  proof (cases rule: create_job_cases)
    case (setex_raised x)
    from setex_Some(2) [OF setex_raised(1)] up show ?thesis by simp
  next
    case (lane_raised r1 x)
    have "data r1 (priority_queue prio) = data r (priority_queue prio)"
      by (simp add: setex_None(1) [OF lane_raised(1)] keys_distinct)
    then have "holds_string r1 (priority_queue prio) = holds_string r (priority_queue prio)"
      by (rule holds_string_data)
    with lane have n: "\<not> holds_string r1 (priority_queue prio)" by simp
    from up have "\<not> store_down e (LPUSH (priority_queue prio) (new_job_id e))" by simp
    from lpush_up(1) [OF lane_raised(2) this n] show ?thesis by simp
  next
    case (index_raised r1 r2 x)
    show ?thesis by (rule fin [OF index_raised(1,2,3)])
  next
    case (dispatch_raised r1 r2)
    show ?thesis by (rule fin [OF dispatch_raised(1,2,3)])
  next
    case (returned r1 r2)
    show ?thesis by (rule fin [OF returned(1,2,3)])
  qed
  then show "data r' (user_jobs_key u) = Some (RList (new_job_id e # list_at r (user_jobs_key u)))"
    and "ttl r' (user_jobs_key u) = Some (86400 * 30)" by simp_all
qed

subsection \<open>The commands of one call\<close>

text \<open>
  What one call sends: commands on the job's key, on its lane and, for a truthy
  \<open>user_id\<close>, on the owner's index, and nothing after a command the server did not answer.
\<close>

lemma create_job_trace:
  assumes cj: "create_job e jtype params prio uid mretries r = (out, r')"
  shows "\<exists>cs. issued r' = issued r @ cs
           \<and> (\<forall>c\<in>set cs.
                 (command_key c = job_key (new_job_id e) \<or> command_key c = priority_queue prio
                    \<or> (\<exists>u. uid = Some u \<and> u \<noteq> [] \<and> command_key c = user_jobs_key u))
                 \<and> (store_down e c \<longrightarrow>
                       out = Inl RedisConnectionError \<and> last (issued r') = c
                       \<and> (c = SETEX (job_key (new_job_id e)) (timedelta_days 7)
                            \<longrightarrow> data r' = data r \<and> ttl r' = ttl r)))"
proof -
  let ?S = "SETEX (job_key (new_job_id e)) (timedelta_days 7)"
  let ?L = "LPUSH (priority_queue prio) (new_job_id e)"
  let ?P = "\<lambda>c. (command_key c = job_key (new_job_id e) \<or> command_key c = priority_queue prio
                    \<or> (\<exists>u. uid = Some u \<and> u \<noteq> [] \<and> command_key c = user_jobs_key u))
                 \<and> (store_down e c \<longrightarrow>
                       out = Inl RedisConnectionError \<and> last (issued r') = c
                       \<and> (c = ?S \<longrightarrow> data r' = data r \<and> ttl r' = ttl r))"
  have tail: "\<exists>cs. issued r' = issued r @ cs \<and> (\<forall>c\<in>set cs. ?P c)"
    if s: "setex e (job_key (new_job_id e)) (timedelta_days 7)
             (new_job_info e jtype params prio uid mretries) r = (None, r1)"
      and l: "lpush e (priority_queue prio) (new_job_id e) r1 = (None, r2)"
      and a: "add_to_user_jobs e uid (new_job_id e) r2 = (x, r')"
      and o: "x = Some RedisConnectionError \<Longrightarrow> out = Inl RedisConnectionError"
    for r1 r2 x
  proof -
    from add_to_user_jobs_trace [OF a] obtain cs where
      cs: "issued r' = issued r2 @ cs"
        "\<forall>c\<in>set cs. (\<forall>k secs. c \<noteq> SETEX k secs)
           \<and> (\<exists>u. uid = Some u \<and> u \<noteq> [] \<and> command_key c = user_jobs_key u)
           \<and> (store_down e c \<longrightarrow> x = Some RedisConnectionError \<and> last (issued r') = c)"
      by blast
    have i: "issued r' = issued r @ (?S # ?L # cs)"
      using cs(1) lpush_frame(2) [OF l] setex_None(1) [OF s] by simp
    have "?P ?S" using setex_None(2) [OF s] by simp
    moreover have "?P ?L" using lpush_done(2) [OF l] by simp
    moreover have "\<forall>c\<in>set cs. ?P c"
    proof
      fix c
      assume c: "c \<in> set cs"
      from cs(2) c have all:
        "(\<forall>k secs. c \<noteq> SETEX k secs)
           \<and> (\<exists>u. uid = Some u \<and> u \<noteq> [] \<and> command_key c = user_jobs_key u)
           \<and> (store_down e c \<longrightarrow> x = Some RedisConnectionError \<and> last (issued r') = c)"
        by (rule bspec)
      from all have 1: "\<exists>u. uid = Some u \<and> u \<noteq> [] \<and> command_key c = user_jobs_key u"
        and 2: "c \<noteq> ?S"
        and 3: "store_down e c \<Longrightarrow> x = Some RedisConnectionError"
        and 4: "store_down e c \<Longrightarrow> last (issued r') = c"
        by simp_all
      from 3 o have 5: "store_down e c \<Longrightarrow> out = Inl RedisConnectionError" by blast
      from 1 2 4 5 show "?P c" by blast
    qed
    ultimately have "\<forall>c\<in>set (?S # ?L # cs). ?P c" by simp
    with i show ?thesis by (intro exI [of _ "?S # ?L # cs"]) (rule conjI)
  qed
  from cj show ?thesis
  proof (cases rule: create_job_cases)
    case (setex_raised x)
    have i: "issued r' = issued r @ [?S]" and d: "data r' = data r" "ttl r' = ttl r"
      using setex_Some(1) [OF setex_raised(1)] by simp_all
    have "out = Inl RedisConnectionError"
      using setex_Some(3) [OF setex_raised(1)] setex_raised(2) by simp
    with i d have "\<forall>c\<in>set [?S]. ?P c" by simp
    with i show ?thesis by (intro exI [of _ "[?S]"]) (rule conjI)
  next
    case (lane_raised r1 x)
    have i: "issued r' = issued r @ [?S, ?L]"
      using lpush_frame(2) [OF lane_raised(2)] setex_None(1) [OF lane_raised(1)] by simp
    have "?P ?S" using setex_None(2) [OF lane_raised(1)] by simp
    moreover have "?P ?L"
      using lpush_frame(5) [OF lane_raised(2)] lane_raised(3) i by simp
    ultimately have "\<forall>c\<in>set [?S, ?L]. ?P c" by simp
    with i show ?thesis by (intro exI [of _ "[?S, ?L]"]) (rule conjI)
  next
    case (index_raised r1 r2 x)
    show ?thesis
      by (rule tail [OF index_raised(1,2,3)]) (simp add: index_raised(4))
  next
    case (dispatch_raised r1 r2)
    show ?thesis by (rule tail [OF dispatch_raised(1,2,3)]) simp
  next
    case (returned r1 r2)
    show ?thesis by (rule tail [OF returned(1,2,3)]) simp
  qed
qed

subsection \<open>When every command is answered\<close>

lemma create_job_outcome:
  assumes cj: "create_job e jtype params prio uid mretries r = (out, r')"
      and up: "\<forall>c. \<not> store_down e c"
      and lane: "\<not> holds_string r (priority_queue prio)"
      and index: "\<forall>u. uid = Some u \<longrightarrow> \<not> holds_string r (user_jobs_key u)"
  shows "out = (if dispatch_raises e then Inl DispatchError else Inr (new_job_id e))"
  using cj
proof (cases rule: create_job_cases)
  case (setex_raised x)
  from setex_Some(2) [OF setex_raised(1)] up show ?thesis by simp
next
  case (lane_raised r1 x)
  have "data r1 (priority_queue prio) = data r (priority_queue prio)"
    by (simp add: setex_None(1) [OF lane_raised(1)] keys_distinct)
  then have "holds_string r1 (priority_queue prio) = holds_string r (priority_queue prio)"
    by (rule holds_string_data)
  with lane have n: "\<not> holds_string r1 (priority_queue prio)" by simp
  from up have "\<not> store_down e (LPUSH (priority_queue prio) (new_job_id e))" by simp
  from lpush_up(1) [OF lane_raised(2) this n] show ?thesis by simp
next
  case (index_raised r1 r2 x)
  have "uid \<noteq> None \<and> uid \<noteq> Some []"
    using index_raised(3) add_to_user_jobs_falsy [of uid e "new_job_id e" r2]
    by (cases uid) auto
  then obtain u where u: "uid = Some u" "u \<noteq> []" by auto
  have "data r2 (user_jobs_key u) = data r1 (user_jobs_key u)"
    by (rule lpush_frame(3) [OF index_raised(2)]) (simp add: keys_distinct)
  also have "\<dots> = data r (user_jobs_key u)"
    by (simp add: setex_None(1) [OF index_raised(1)] keys_distinct)
  finally have "holds_string r2 (user_jobs_key u) = holds_string r (user_jobs_key u)"
    by (rule holds_string_data)
  with index u(1) have n: "\<not> holds_string r2 (user_jobs_key u)" by simp
  from index_raised(3) u(1)
  have a: "add_to_user_jobs e (Some u) (new_job_id e) r2 = (Some x, r')" by simp
  from up have "\<not> store_down e (LPUSH (user_jobs_key u) (new_job_id e))"
    and "\<not> store_down e (EXPIRE (user_jobs_key u) (86400 * 30))" by simp_all
  from add_to_user_jobs_up(1) [OF a u(2) this n] show ?thesis by simp
next
  case (dispatch_raised r1 r2)
  then show ?thesis by simp
next
  case (returned r1 r2)
  then show ?thesis by simp
qed

subsection \<open>What a failed command leaves behind\<close>


subsection \<open>Two admissions on one lane\<close>

text \<open>
  The source pushes on the left of a lane and has no command that takes a job off it.
  After two calls on the same lane the later job is at index 0 and the earlier one at
  index 1: read from the head the list is in reverse order of admission, read from the
  other end it is in the order of admission.
\<close>

lemma two_admissions_same_lane:
  assumes first: "create_job e1 jtype1 params1 prio uid1 mretries1 r = (out1, r1)"
      and second: "create_job e2 jtype2 params2 prio uid2 mretries2 r1 = (out2, r2)"
      and up1: "\<forall>c. \<not> store_down e1 c" and up2: "\<forall>c. \<not> store_down e2 c"
      and lane: "\<not> holds_string r (priority_queue prio)"
  shows "list_at r2 (priority_queue prio)
           = new_job_id e2 # new_job_id e1 # list_at r (priority_queue prio)"
proof -
  from up1 have s1: "\<not> store_down e1 (SETEX (job_key (new_job_id e1)) (timedelta_days 7))"
    and l1: "\<not> store_down e1 (LPUSH (priority_queue prio) (new_job_id e1))" by simp_all
  from up2 have s2: "\<not> store_down e2 (SETEX (job_key (new_job_id e2)) (timedelta_days 7))"
    and l2: "\<not> store_down e2 (LPUSH (priority_queue prio) (new_job_id e2))" by simp_all
  have d1: "data r1 (priority_queue prio)
              = Some (RList (new_job_id e1 # list_at r (priority_queue prio)))"
    by (rule create_job_lane_entry [OF first s1 l1 lane])
  then have lane1: "\<not> holds_string r1 (priority_queue prio)"
    and list1: "list_at r1 (priority_queue prio) = new_job_id e1 # list_at r (priority_queue prio)"
    by (simp_all add: holds_string_def list_at_def)
  have "data r2 (priority_queue prio)
          = Some (RList (new_job_id e2 # list_at r1 (priority_queue prio)))"
    by (rule create_job_lane_entry [OF second s2 l2 lane1])
  with list1 show ?thesis by (simp add: list_at_def)
qed

subsection \<open>Evaluating the concrete runs\<close>

lemmas run_defs =
  create_job_def setex_def lpush_def expire_def add_to_user_jobs_def dispatch_celery_task_def
  create_job_return_def new_job_info_def new_job_id_def job_key_def user_jobs_key_def
  timedelta_days_def priority_queue_values Let_def
  env_ok_def env_setex_down_def env_lane_down_def env_index_down_def env_expire_down_def
  env_dispatch_raises_def
  store_empty_def store_busy_def

section \<open>The claims\<close>

subsection \<open>Admission returns the job's identifier\<close>

text \<open>
  C1, as stated, fails: a call with a non-empty \<open>job_type\<close> and a defined priority raises,
  and returns no \<open>job_id\<close>, when the server does not answer the SETEX.
\<close>

theorem create_job_valid_call_raises_counterexample:
  "''scrape'' \<noteq> []
   \<and> fst (create_job env_setex_down ''scrape'' None HIGH None 3 store_empty)
       = Inl RedisConnectionError
   \<and> fst (create_job env_setex_down ''scrape'' None HIGH None 3 store_empty)
       \<noteq> Inr (''job_'' @ uuid4_hex env_setex_down)"
  by (simp add: run_defs)

text \<open>
  C1, amended. When the store answers every command, neither list key holds a string and
  the call of \<open>_dispatch_celery_task\<close> returns, \<open>create_job\<close> returns the identifier it
  generated on line 106, \<open>job_\<close> followed by the hexadecimal digits of the UUID drawn in
  this call. That identifier is the \<open>job_id\<close> of the record stored under \<open>job:<job_id>\<close>
  and the head of the job's lane.
\<close>

theorem create_job_returns_job_id:
  assumes "\<forall>c. \<not> store_down e c"
      and "\<not> holds_string r (priority_queue prio)"
      and "\<forall>u. uid = Some u \<longrightarrow> \<not> holds_string r (user_jobs_key u)"
      and "\<not> dispatch_raises e"
  shows "fst (create_job e jtype params prio uid mretries r) = Inr (''job_'' @ uuid4_hex e)
         \<and> (\<exists>J. data (snd (create_job e jtype params prio uid mretries r))
                    (''job:job_'' @ uuid4_hex e) = Some (RJson J)
                \<and> job_id J = ''job_'' @ uuid4_hex e)
         \<and> list_at (snd (create_job e jtype params prio uid mretries r)) (priority_queue prio)
             = (''job_'' @ uuid4_hex e) # list_at r (priority_queue prio)"
proof -
  obtain out r' where cj: "create_job e jtype params prio uid mretries r = (out, r')"
    by (cases "create_job e jtype params prio uid mretries r")
  let ?J = "new_job_info e jtype params prio uid mretries"
  from assms(1) have s: "\<not> store_down e (SETEX (job_key (new_job_id e)) (timedelta_days 7))"
    and l: "\<not> store_down e (LPUSH (priority_queue prio) (new_job_id e))" by simp_all
  have out: "out = Inr (''job_'' @ uuid4_hex e)"
    using create_job_outcome [OF cj assms(1,2,3)] assms(4) by (simp add: new_job_id_def)
  have stored: "data r' (''job:job_'' @ uuid4_hex e) = Some (RJson ?J)"
    using create_job_record_kept(1) [OF cj s] by (simp add: job_key_def new_job_id_def)
  have id: "job_id ?J = ''job_'' @ uuid4_hex e"
    by (simp add: new_job_info_def new_job_id_def)
  have "data r' (priority_queue prio)
          = Some (RList (new_job_id e # list_at r (priority_queue prio)))"
    by (rule create_job_lane_entry [OF cj s l assms(2)])
  then have lane: "list_at r' (priority_queue prio)
                     = (''job_'' @ uuid4_hex e) # list_at r (priority_queue prio)"
    by (simp add: list_at_def new_job_id_def)
  from stored id have "\<exists>J. data r' (''job:job_'' @ uuid4_hex e) = Some (RJson J)
                          \<and> job_id J = ''job_'' @ uuid4_hex e"
    by blast
  with out lane show ?thesis by (simp add: cj)
qed

theorem create_job_returns_job_id_witness:
  "(\<forall>c. \<not> store_down env_ok c)
   \<and> \<not> holds_string store_busy (priority_queue NORMAL)
   \<and> \<not> holds_string store_busy (user_jobs_key ''u1'')
   \<and> \<not> dispatch_raises env_ok
   \<and> fst (create_job env_ok ''scrape'' None NORMAL (Some ''u1'') 3 store_busy) = Inr ''job_0f3a''
   \<and> list_at (snd (create_job env_ok ''scrape'' None NORMAL (Some ''u1'') 3 store_busy))
        (priority_queue NORMAL) = [''job_0f3a'', ''job_a'']"
proof -
  have h1: "\<forall>c. \<not> store_down env_ok c" by (simp add: env_ok_def)
  have h2: "\<not> holds_string store_busy (priority_queue NORMAL)"
    by (simp add: holds_string_def store_busy_def priority_queue_values)
  have h3: "\<forall>u. Some ''u1'' = Some u \<longrightarrow> \<not> holds_string store_busy (user_jobs_key u)"
    by (simp add: holds_string_def store_busy_def user_jobs_key_def)
  have h4: "\<not> dispatch_raises env_ok" by (simp add: env_ok_def)
  have "uuid4_hex env_ok = ''0f3a''" by (simp add: env_ok_def)
  moreover have "list_at store_busy (priority_queue NORMAL) = [''job_a'']"
    by (simp add: list_at_def store_busy_def priority_queue_values)
  moreover from h3 have "\<not> holds_string store_busy (user_jobs_key ''u1'')" by simp
  moreover note create_job_returns_job_id [OF h1 h2 h3 h4, of "''scrape''" None 3] h1 h2 h4
  ultimately show ?thesis by simp
qed

subsection \<open>A store that fails\<close>




subsection \<open>Arguments are not validated\<close>

text \<open>
  C3, as stated, fails: with an empty \<open>job_type\<close> and \<open>max_retries = -1\<close> the call raises
  nothing, stores the record and puts the job on its lane.
\<close>

theorem create_job_no_validation_counterexample:
  "\<not> isl (fst (create_job env_ok '''' None NORMAL None (- 1) store_empty))
   \<and> data store_empty ''job:job_0f3a'' = None
   \<and> data (snd (create_job env_ok '''' None NORMAL None (- 1) store_empty)) ''job:job_0f3a''
        \<noteq> None
   \<and> list_at store_empty ''queue:priority:5'' = []
   \<and> list_at (snd (create_job env_ok '''' None NORMAL None (- 1) store_empty))
        ''queue:priority:5'' = [''job_0f3a'']"
  by (simp add: run_defs list_at_def)

text \<open>
  C3, amended. \<open>create_job\<close> checks none of its arguments and has no validation error to
  raise. With an empty \<open>job_type\<close> or a negative \<open>max_retries\<close> it does what it does for
  any other input: when the store answers, no list key holds a string and the dispatch
  returns, it raises nothing, the record is stored with that \<open>job_type\<close> and that
  \<open>max_retries\<close>, and the job is on its lane. A priority outside the four levels is not
  a value of the type \<open>JobPriority\<close>.
\<close>

theorem create_job_admits_unvalidated:
  assumes "jtype = [] \<or> mretries < 0"
      and "\<forall>c. \<not> store_down e c"
      and "\<not> holds_string r (priority_queue prio)"
      and "\<forall>u. uid = Some u \<longrightarrow> \<not> holds_string r (user_jobs_key u)"
      and "\<not> dispatch_raises e"
  shows "\<not> isl (fst (create_job e jtype params prio uid mretries r))
         \<and> (\<exists>J. data (snd (create_job e jtype params prio uid mretries r))
                    (job_key (new_job_id e)) = Some (RJson J)
                \<and> job_type J = jtype \<and> max_retries J = mretries)
         \<and> data (snd (create_job e jtype params prio uid mretries r)) (priority_queue prio)
             = Some (RList (new_job_id e # list_at r (priority_queue prio)))"
proof -
  obtain out r' where cj: "create_job e jtype params prio uid mretries r = (out, r')"
    by (cases "create_job e jtype params prio uid mretries r")
  let ?J = "new_job_info e jtype params prio uid mretries"
  from assms(2) have s: "\<not> store_down e (SETEX (job_key (new_job_id e)) (timedelta_days 7))"
    and l: "\<not> store_down e (LPUSH (priority_queue prio) (new_job_id e))" by simp_all
  have "out = Inr (new_job_id e)"
    using create_job_outcome [OF cj assms(2,3,4)] assms(5) by simp
  moreover have "data r' (job_key (new_job_id e)) = Some (RJson ?J)"
    by (rule create_job_record_kept(1) [OF cj s])
  moreover have "job_type ?J = jtype \<and> max_retries ?J = mretries"
    by (simp add: new_job_info_def)
  moreover have "data r' (priority_queue prio)
                   = Some (RList (new_job_id e # list_at r (priority_queue prio)))"
    by (rule create_job_lane_entry [OF cj s l assms(3)])
  ultimately show ?thesis by (simp add: cj)
qed

theorem create_job_admits_unvalidated_witness:
  "('''' = [] \<or> (- 1 :: int) < 0)
   \<and> (\<forall>c. \<not> store_down env_ok c)
   \<and> \<not> holds_string store_busy (priority_queue LOW)
   \<and> \<not> dispatch_raises env_ok
   \<and> \<not> isl (fst (create_job env_ok '''' None LOW None (- 1) store_busy))
   \<and> data (snd (create_job env_ok '''' None LOW None (- 1) store_busy)) (priority_queue LOW)
       = Some (RList [new_job_id env_ok])"
proof -
  have h1: "'''' = [] \<or> (- 1 :: int) < 0" by simp
  have h2: "\<forall>c. \<not> store_down env_ok c" by (simp add: env_ok_def)
  have h3: "\<not> holds_string store_busy (priority_queue LOW)"
    by (simp add: holds_string_def store_busy_def priority_queue_values)
  have h4: "\<forall>u. (None :: string option) = Some u \<longrightarrow> \<not> holds_string store_busy (user_jobs_key u)"
    by simp
  have h5: "\<not> dispatch_raises env_ok" by (simp add: env_ok_def)
  have "list_at store_busy (priority_queue LOW) = []"
    by (simp add: list_at_def store_busy_def priority_queue_values)
  with create_job_admits_unvalidated [OF h1 h2 h3 h4 h5, of None] h1 h2 h3 h5
  show ?thesis by simp
qed

subsection \<open>The lane of the priority\<close>

text \<open>
  C5, as stated, fails: on a lane that holds \<open>job_a\<close> the new job goes before
  \<open>job_a\<close>, at the head of the list, not after it.
\<close>

theorem create_job_lane_tail_counterexample:
  "list_at (snd (create_job env_ok ''scrape'' None NORMAL None 3 store_busy))
     (priority_queue NORMAL)
   \<noteq> list_at store_busy (priority_queue NORMAL) @ [new_job_id env_ok]
   \<and> list_at store_busy (priority_queue NORMAL) = [''job_a'']
   \<and> list_at (snd (create_job env_ok ''scrape'' None NORMAL None 3 store_busy))
        (priority_queue NORMAL) = [''job_0f3a'', ''job_a'']"
  by (simp add: run_defs list_at_def)

text \<open>
  C5, amended. When the SETEX and the LPUSH on the lane are carried out and the lane's key
  does not hold a string, the new \<open>job_id\<close> is at the head (index 0, the left end) of the
  list under \<open>queue:priority:<P.value>\<close>, before what the list held, and the lanes of
  the other three priorities are as they were.
\<close>

theorem create_job_pushes_on_lane_head:
  assumes "\<not> store_down e (SETEX (job_key (new_job_id e)) (timedelta_days 7))"
      and "\<not> store_down e (LPUSH (priority_queue prio) (new_job_id e))"
      and "\<not> holds_string r (priority_queue prio)"
  shows "priority_queue prio = ''queue:priority:'' @ str_int (JobPriority_value prio)
         \<and> list_at (snd (create_job e jtype params prio uid mretries r)) (priority_queue prio)
             = new_job_id e # list_at r (priority_queue prio)
         \<and> (\<forall>q. q \<noteq> prio \<longrightarrow>
               data (snd (create_job e jtype params prio uid mretries r)) (priority_queue q)
                 = data r (priority_queue q))"
proof -
  obtain out r' where cj: "create_job e jtype params prio uid mretries r = (out, r')"
    by (cases "create_job e jtype params prio uid mretries r")
  have "data r' (priority_queue prio)
          = Some (RList (new_job_id e # list_at r (priority_queue prio)))"
    by (rule create_job_lane_entry [OF cj assms])
  then have "list_at r' (priority_queue prio) = new_job_id e # list_at r (priority_queue prio)"
    by (simp add: list_at_def)
  moreover have "data r' (priority_queue q) = data r (priority_queue q)" if "q \<noteq> prio" for q
    by (rule create_job_frame(1) [OF cj]) (simp_all add: keys_distinct priority_queue_inj that)
  ultimately show ?thesis by (simp add: cj priority_queue_def)
qed

theorem create_job_pushes_on_lane_head_witness:
  "\<not> store_down env_ok (SETEX (job_key (new_job_id env_ok)) (timedelta_days 7))
   \<and> \<not> store_down env_ok (LPUSH (priority_queue NORMAL) (new_job_id env_ok))
   \<and> \<not> holds_string store_busy (priority_queue NORMAL)
   \<and> HIGH \<noteq> NORMAL
   \<and> list_at (snd (create_job env_ok ''scrape'' None NORMAL None 3 store_busy))
        ''queue:priority:5'' = [''job_0f3a'', ''job_a'']
   \<and> data (snd (create_job env_ok ''scrape'' None NORMAL None 3 store_busy)) (priority_queue HIGH)
       = data store_busy (priority_queue HIGH)"
proof -
  have h1: "\<not> store_down env_ok (SETEX (job_key (new_job_id env_ok)) (timedelta_days 7))"
    and h2: "\<not> store_down env_ok (LPUSH (priority_queue NORMAL) (new_job_id env_ok))"
    by (simp_all add: env_ok_def)
  have h3: "\<not> holds_string store_busy (priority_queue NORMAL)"
    by (simp add: holds_string_def store_busy_def priority_queue_values)
  have h4: "HIGH \<noteq> NORMAL" by simp
  have v: "list_at store_busy (priority_queue NORMAL) = [''job_a'']"
    "new_job_id env_ok = ''job_0f3a''" "priority_queue NORMAL = ''queue:priority:5''"
    by (simp_all add: list_at_def store_busy_def priority_queue_values new_job_id_def env_ok_def)
  from create_job_pushes_on_lane_head [OF h1 h2 h3, of "''scrape''" None None 3]
  have "list_at (snd (create_job env_ok ''scrape'' None NORMAL None 3 store_busy))
          (priority_queue NORMAL) = new_job_id env_ok # list_at store_busy (priority_queue NORMAL)"
    and "data (snd (create_job env_ok ''scrape'' None NORMAL None 3 store_busy)) (priority_queue HIGH)
          = data store_busy (priority_queue HIGH)"
    using h4 by blast+
  with h1 h2 h3 h4 v show ?thesis by simp
qed

subsection \<open>A dispatch that raises\<close>

text \<open>
  C6, as stated, fails: when the call of \<open>_dispatch_celery_task\<close> raises, the caller gets
  that exception and not the \<open>job_id\<close>.
\<close>

theorem create_job_dispatch_raises_counterexample:
  "fst (create_job env_dispatch_raises ''scrape'' None NORMAL None 3 store_empty)
     = Inl DispatchError
   \<and> fst (create_job env_dispatch_raises ''scrape'' None NORMAL None 3 store_empty)
     \<noteq> Inr (new_job_id env_dispatch_raises)"
  by (simp add: run_defs)

text \<open>
  C6, amended. When the store answers every command and the call of
  \<open>_dispatch_celery_task\<close> raises, nothing is taken back: the job record and the lane
  entry stay. \<open>create_job\<close> does not catch the exception: the caller gets it, and no
  \<open>job_id\<close>.
\<close>

theorem create_job_dispatch_failure_propagates:
  assumes "\<forall>c. \<not> store_down e c"
      and "\<not> holds_string r (priority_queue prio)"
      and "\<forall>u. uid = Some u \<longrightarrow> \<not> holds_string r (user_jobs_key u)"
      and "dispatch_raises e"
  shows "fst (create_job e jtype params prio uid mretries r) = Inl DispatchError
         \<and> data (snd (create_job e jtype params prio uid mretries r)) (job_key (new_job_id e))
             = Some (RJson (new_job_info e jtype params prio uid mretries))
         \<and> data (snd (create_job e jtype params prio uid mretries r)) (priority_queue prio)
             = Some (RList (new_job_id e # list_at r (priority_queue prio)))"
proof -
  obtain out r' where cj: "create_job e jtype params prio uid mretries r = (out, r')"
    by (cases "create_job e jtype params prio uid mretries r")
  from assms(1) have s: "\<not> store_down e (SETEX (job_key (new_job_id e)) (timedelta_days 7))"
    and l: "\<not> store_down e (LPUSH (priority_queue prio) (new_job_id e))" by simp_all
  have "out = Inl DispatchError"
    using create_job_outcome [OF cj assms(1,2,3)] assms(4) by simp
  moreover have "data r' (job_key (new_job_id e))
                   = Some (RJson (new_job_info e jtype params prio uid mretries))"
    by (rule create_job_record_kept(1) [OF cj s])
  moreover have "data r' (priority_queue prio)
                   = Some (RList (new_job_id e # list_at r (priority_queue prio)))"
    by (rule create_job_lane_entry [OF cj s l assms(2)])
  ultimately show ?thesis by (simp add: cj)
qed

theorem create_job_dispatch_failure_propagates_witness:
  "(\<forall>c. \<not> store_down env_dispatch_raises c)
   \<and> \<not> holds_string store_empty (priority_queue URGENT)
   \<and> \<not> holds_string store_empty (user_jobs_key ''u1'')
   \<and> dispatch_raises env_dispatch_raises
   \<and> fst (create_job env_dispatch_raises ''scrape'' None URGENT (Some ''u1'') 3 store_empty)
       = Inl DispatchError
   \<and> data (snd (create_job env_dispatch_raises ''scrape'' None URGENT (Some ''u1'') 3 store_empty))
        (priority_queue URGENT) = Some (RList [''job_0f3a''])"
proof -
  have h1: "\<forall>c. \<not> store_down env_dispatch_raises c"
    by (simp add: env_dispatch_raises_def env_ok_def)
  have h2: "\<not> holds_string store_empty (priority_queue URGENT)"
    by (simp add: holds_string_def store_empty_def)
  have h3: "\<forall>u. Some ''u1'' = Some u \<longrightarrow> \<not> holds_string store_empty (user_jobs_key u)"
    by (simp add: holds_string_def store_empty_def)
  have h4: "dispatch_raises env_dispatch_raises"
    by (simp add: env_dispatch_raises_def)
  have v: "list_at store_empty (priority_queue URGENT) = []"
    "new_job_id env_dispatch_raises = ''job_0f3a''"
    by (simp_all add: list_at_def store_empty_def new_job_id_def env_dispatch_raises_def env_ok_def)
  from h3 have "\<not> holds_string store_empty (user_jobs_key ''u1'')" by simp
  with create_job_dispatch_failure_propagates [OF h1 h2 h3 h4, of "''scrape''" None 3]
    h1 h2 h4 v
  show ?thesis by simp
qed

subsection \<open>The stored record\<close>

text \<open>
  C7. When the SETEX of line 120 is carried out, the store holds under the key \<open>job:\<close>
  followed by the new \<open>job_id\<close> (itself \<open>job_\<close> followed by the digits of the UUID), with
  an expiry of seven days (604800 seconds), a record whose \<open>job_id\<close> is that identifier,
  whose status is PENDING, whose \<open>created_at\<close> is the time read at creation, whose
  \<open>progress\<close> and \<open>retry_count\<close> are 0, whose \<open>job_type\<close>, \<open>priority\<close>, \<open>max_retries\<close> and
  \<open>user_id\<close> are the caller's, and whose \<open>started_at\<close>, \<open>completed_at\<close>, \<open>result\<close> and
  \<open>error_message\<close> are unset. This holds at the end of the call, however it ends.
\<close>

theorem create_job_persists_pending_record:
  assumes "\<not> store_down e (SETEX (''job:job_'' @ uuid4_hex e) 604800)"
  shows "\<exists>J. data (snd (create_job e jtype params prio uid mretries r)) (''job:'' @ job_id J)
               = Some (RJson J)
           \<and> ttl (snd (create_job e jtype params prio uid mretries r)) (''job:'' @ job_id J)
               = Some (7 * 24 * 60 * 60)
           \<and> job_id J = ''job_'' @ uuid4_hex e
           \<and> status J = ''pending''
           \<and> created_at J = utcnow_isoformat e
           \<and> progress J = 0 \<and> retry_count J = 0
           \<and> job_type J = jtype \<and> priority J = JobPriority_value prio
           \<and> max_retries J = mretries \<and> user_id J = uid
           \<and> started_at J = None \<and> completed_at J = None
           \<and> result J = None \<and> error_message J = None"
proof -
  obtain out r' where cj: "create_job e jtype params prio uid mretries r = (out, r')"
    by (cases "create_job e jtype params prio uid mretries r")
  let ?J = "new_job_info e jtype params prio uid mretries"
  have key: "job_key (new_job_id e) = ''job:job_'' @ uuid4_hex e"
    and secs: "timedelta_days 7 = 604800"
    and id: "job_id ?J = ''job_'' @ uuid4_hex e"
    by (simp_all add: new_job_id_def job_key_def timedelta_days_def new_job_info_def)
  from assms have up: "\<not> store_down e (SETEX (job_key (new_job_id e)) (timedelta_days 7))"
    by (simp add: key secs)
  have "data r' (''job:'' @ job_id ?J) = Some (RJson ?J)"
    using create_job_record_kept(1) [OF cj up] by (simp add: key id)
  moreover have "ttl r' (''job:'' @ job_id ?J) = Some (7 * 24 * 60 * 60)"
    using create_job_record_kept(2) [OF cj up] by (simp add: key id secs)
  ultimately show ?thesis
    by (intro exI [of _ ?J]) (simp add: cj new_job_info_def new_job_id_def)
qed

theorem create_job_persists_pending_record_witness:
  "\<not> store_down env_ok (SETEX (''job:job_'' @ uuid4_hex env_ok) 604800)
   \<and> (\<exists>J. data (snd (create_job env_ok ''scrape'' None HIGH (Some ''u1'') 3 store_empty))
               ''job:job_0f3a'' = Some (RJson J)
          \<and> ttl (snd (create_job env_ok ''scrape'' None HIGH (Some ''u1'') 3 store_empty))
               ''job:job_0f3a'' = Some 604800
          \<and> job_id J = ''job_0f3a''
          \<and> status J = ''pending'' \<and> job_type J = ''scrape'' \<and> priority J = 8
          \<and> max_retries J = 3 \<and> user_id J = Some ''u1'' \<and> progress J = 0)"
proof -
  have h: "\<not> store_down env_ok (SETEX (''job:job_'' @ uuid4_hex env_ok) 604800)"
    by (simp add: env_ok_def)
  have u: "uuid4_hex env_ok = ''0f3a''" by (simp add: env_ok_def)
  from create_job_persists_pending_record [OF h, of "''scrape''" None HIGH "Some ''u1''" 3 store_empty]
  obtain J where
    "data (snd (create_job env_ok ''scrape'' None HIGH (Some ''u1'') 3 store_empty))
       (''job:'' @ job_id J) = Some (RJson J)"
    "ttl (snd (create_job env_ok ''scrape'' None HIGH (Some ''u1'') 3 store_empty))
       (''job:'' @ job_id J) = Some 604800"
    "job_id J = ''job_0f3a''"
    "status J = ''pending''" "job_type J = ''scrape''" "priority J = 8"
    "max_retries J = 3" "user_id J = Some ''u1''" "progress J = 0"
    unfolding u by auto
  with h show ?thesis by auto
qed

subsection \<open>The owner's index of jobs\<close>

text \<open>
  C8, as stated, fails: a \<open>user_id\<close> that is the empty string is present and falsy. The
  call succeeds and writes no index for it.
\<close>

theorem create_job_empty_user_id_counterexample:
  "\<not> isl (fst (create_job env_ok ''scrape'' None NORMAL (Some '''') 3 store_empty))
   \<and> data (snd (create_job env_ok ''scrape'' None NORMAL (Some '''') 3 store_empty))
        (user_jobs_key '''') = None
   \<and> ttl (snd (create_job env_ok ''scrape'' None NORMAL (Some '''') 3 store_empty))
        (user_jobs_key '''') = None"
  by (simp add: run_defs)

text \<open>
  C8, amended. With a \<open>user_id\<close> that is present and not the empty string, when the store
  answers every command and neither list key holds a string, the new \<open>job_id\<close> is at the
  head of the list under \<open>user_jobs:<user_id>\<close>, before what the list held, and that key's
  expiry is set to thirty days (2592000 seconds), whatever it was.
\<close>

theorem create_job_indexes_user_job:
  assumes "u \<noteq> []"
      and "\<forall>c. \<not> store_down e c"
      and "\<not> holds_string r (priority_queue prio)"
      and "\<not> holds_string r (user_jobs_key u)"
  shows "user_jobs_key u = ''user_jobs:'' @ u
         \<and> list_at (snd (create_job e jtype params prio (Some u) mretries r)) (user_jobs_key u)
             = new_job_id e # list_at r (user_jobs_key u)
         \<and> ttl (snd (create_job e jtype params prio (Some u) mretries r)) (user_jobs_key u)
             = Some (30 * 24 * 60 * 60)"
proof -
  obtain out r' where cj: "create_job e jtype params prio (Some u) mretries r = (out, r')"
    by (cases "create_job e jtype params prio (Some u) mretries r")
  have "data r' (user_jobs_key u) = Some (RList (new_job_id e # list_at r (user_jobs_key u)))"
    by (rule create_job_index_entry(1) [OF cj assms])
  then have "list_at r' (user_jobs_key u) = new_job_id e # list_at r (user_jobs_key u)"
    by (simp add: list_at_def)
  moreover have "ttl r' (user_jobs_key u) = Some (30 * 24 * 60 * 60)"
    using create_job_index_entry(2) [OF cj assms] by simp
  ultimately show ?thesis by (simp add: cj user_jobs_key_def)
qed

theorem create_job_indexes_user_job_witness:
  "''u1'' \<noteq> []
   \<and> (\<forall>c. \<not> store_down env_ok c)
   \<and> \<not> holds_string store_busy (priority_queue NORMAL)
   \<and> \<not> holds_string store_busy (user_jobs_key ''u1'')
   \<and> list_at (snd (create_job env_ok ''scrape'' None NORMAL (Some ''u1'') 3 store_busy))
        ''user_jobs:u1'' = [''job_0f3a'', ''job_a'']
   \<and> ttl store_busy ''user_jobs:u1'' = Some 100
   \<and> ttl (snd (create_job env_ok ''scrape'' None NORMAL (Some ''u1'') 3 store_busy))
        ''user_jobs:u1'' = Some 2592000"
proof -
  have h1: "''u1'' \<noteq> []" by simp
  have h2: "\<forall>c. \<not> store_down env_ok c" by (simp add: env_ok_def)
  have h3: "\<not> holds_string store_busy (priority_queue NORMAL)"
    by (simp add: holds_string_def store_busy_def priority_queue_values)
  have h4: "\<not> holds_string store_busy (user_jobs_key ''u1'')"
    by (simp add: holds_string_def store_busy_def user_jobs_key_def)
  have v: "list_at store_busy (user_jobs_key ''u1'') = [''job_a'']"
    "new_job_id env_ok = ''job_0f3a''" "user_jobs_key ''u1'' = ''user_jobs:u1''"
    "ttl store_busy ''user_jobs:u1'' = Some 100"
    by (simp_all add: list_at_def store_busy_def user_jobs_key_def new_job_id_def env_ok_def)
  from create_job_indexes_user_job [OF h1 h2 h3 h4, of "''scrape''" None 3] h1 h2 h3 h4 v
  show ?thesis by simp
qed

subsection \<open>Absent parameters\<close>

text \<open>
  C9. When \<open>parameters\<close> is \<open>None\<close> or the empty dict and the SETEX is carried out, the
  \<open>parameters\<close> field of the stored record is the empty dict: it is present and empty.
\<close>

theorem create_job_parameters_default_empty:
  assumes "params = None \<or> params = Some []"
      and "\<not> store_down e (SETEX (job_key (new_job_id e)) (timedelta_days 7))"
  shows "\<exists>J. data (snd (create_job e jtype params prio uid mretries r)) (job_key (new_job_id e))
               = Some (RJson J)
           \<and> parameters J = Some []"
proof -
  obtain out r' where cj: "create_job e jtype params prio uid mretries r = (out, r')"
    by (cases "create_job e jtype params prio uid mretries r")
  let ?J = "new_job_info e jtype params prio uid mretries"
  have "data r' (job_key (new_job_id e)) = Some (RJson ?J)"
    by (rule create_job_record_kept(1) [OF cj assms(2)])
  moreover have "parameters ?J = Some []"
    using assms(1) by (auto simp add: new_job_info_def)
  ultimately show ?thesis by (intro exI [of _ ?J]) (simp add: cj)
qed

theorem create_job_parameters_default_empty_witness:
  "((None :: pydict option) = None \<or> (None :: pydict option) = Some [])
   \<and> \<not> store_down env_ok (SETEX (job_key (new_job_id env_ok)) (timedelta_days 7))
   \<and> (\<exists>J. data (snd (create_job env_ok ''scrape'' None LOW None 3 store_busy))
               (job_key (new_job_id env_ok)) = Some (RJson J)
          \<and> parameters J = Some [])"
proof -
  have h1: "(None :: pydict option) = None \<or> (None :: pydict option) = Some []" by simp
  have h2: "\<not> store_down env_ok (SETEX (job_key (new_job_id env_ok)) (timedelta_days 7))"
    by (simp add: env_ok_def)
  from create_job_parameters_default_empty [OF h1 h2] h1 h2 show ?thesis by blast
qed

subsection \<open>No owner, no index\<close>

text \<open>
  C10. With \<open>user_id = None\<close>, whatever else the call does and however it ends, no key
  that starts with \<open>user_jobs:\<close> changes its value or its expiry, and none of the
  commands the call sends addresses such a key.
\<close>

theorem create_job_without_user_id_leaves_index:
  "(\<forall>k. prefix ''user_jobs:'' k \<longrightarrow>
        data (snd (create_job e jtype params prio None mretries r)) k = data r k
      \<and> ttl (snd (create_job e jtype params prio None mretries r)) k = ttl r k)
   \<and> (\<forall>c \<in> set (drop (length (issued r))
                   (issued (snd (create_job e jtype params prio None mretries r)))).
        \<not> prefix ''user_jobs:'' (command_key c))"
proof -
  obtain out r' where cj: "create_job e jtype params prio None mretries r = (out, r')"
    by (cases "create_job e jtype params prio None mretries r")
  have frame: "data r' k = data r k \<and> ttl r' k = ttl r k" if k: "prefix ''user_jobs:'' k" for k
    using create_job_frame [OF cj user_jobs_prefix_keys [OF k]] by simp
  from create_job_trace [OF cj] obtain cs where
    cs: "issued r' = issued r @ cs"
      "\<forall>c\<in>set cs. command_key c = job_key (new_job_id e) \<or> command_key c = priority_queue prio"
    by auto
  have "\<not> prefix ''user_jobs:'' (command_key c)" if c: "c \<in> set cs" for c
  proof
    assume p: "prefix ''user_jobs:'' (command_key c)"
    from cs(2) c have "command_key c = job_key (new_job_id e) \<or> command_key c = priority_queue prio"
      by (rule bspec)
    with user_jobs_prefix_keys [OF p] show False by blast
  qed
  with cs(1) frame show ?thesis by (simp add: cj)
qed

theorem create_job_without_user_id_leaves_index_witness:
  "prefix ''user_jobs:'' ''user_jobs:u1''
   \<and> data (snd (create_job env_ok ''scrape'' None NORMAL None 3 store_busy)) ''user_jobs:u1''
       = Some (RList [''job_a''])
   \<and> ttl (snd (create_job env_ok ''scrape'' None NORMAL None 3 store_busy)) ''user_jobs:u1''
       = Some 100
   \<and> LPUSH ''queue:priority:5'' ''job_0f3a''
       \<in> set (drop (length (issued store_busy))
                 (issued (snd (create_job env_ok ''scrape'' None NORMAL None 3 store_busy))))
   \<and> \<not> prefix ''user_jobs:'' (command_key (LPUSH ''queue:priority:5'' ''job_0f3a''))"
proof -
  have h1: "prefix ''user_jobs:'' ''user_jobs:u1''" by simp
  have h2: "LPUSH ''queue:priority:5'' ''job_0f3a''
       \<in> set (drop (length (issued store_busy))
                 (issued (snd (create_job env_ok ''scrape'' None NORMAL None 3 store_busy))))"
    by (simp add: run_defs)
  from create_job_without_user_id_leaves_index
         [of env_ok "''scrape''" None NORMAL 3 store_busy] h2
  have "\<not> prefix ''user_jobs:'' (command_key (LPUSH ''queue:priority:5'' ''job_0f3a''))"
    by blast
  moreover from create_job_without_user_id_leaves_index
         [of env_ok "''scrape''" None NORMAL 3 store_busy] h1
  have "data (snd (create_job env_ok ''scrape'' None NORMAL None 3 store_busy)) ''user_jobs:u1''
          = data store_busy ''user_jobs:u1''
        \<and> ttl (snd (create_job env_ok ''scrape'' None NORMAL None 3 store_busy)) ''user_jobs:u1''
          = ttl store_busy ''user_jobs:u1''"
    by blast
  ultimately show ?thesis using h1 h2 by (simp add: store_busy_def)
qed

end
